theory Spec2Isabelle
  imports Complex_Main "HOL-Library.Word"
begin

unbundle bit_operations_syntax

section \<open>Data model\<close>

text \<open>
  Go's \<open>uint8\<close>/\<open>byte\<close> and \<open>uint16\<close>/\<open>int16\<close> are 8- and 16-bit words: arithmetic
  wraps, \<open>unat\<close> reads a word unsigned and \<open>sint\<close> reads it in two's complement.
  Go's \<open>int\<close> (byte counts, the configured slave address) is \<open>int\<close>.
\<close>

type_synonym byte = "8 word"
type_synonym uint16 = "16 word"

text \<open>
  A Go \<open>error\<close> value. \<open>errors.New(msg)\<close> is \<open>errors_New msg\<close>;
  \<open>fmt.Errorf("prefix: %v", err)\<close> is \<open>fmt_Errorf ''prefix: '' err\<close> (the format
  string up to the verb, and the wrapped error); \<open>fmt.Errorf\<close> with integer
  arguments (\<open>%X\<close>) keeps the format string and the arguments. A \<open>nil\<close> error is
  \<open>None :: error option\<close>.
\<close>

datatype error =
    errors_New string
  | fmt_Errorf string error
  | fmt_Errorf_ints string "int list"

text \<open>
  Some format strings put a line feed and a tab between the prefix and the wrapped
  error; the prefix then ends in \<open>nl_tab\<close>.
\<close>

definition nl_tab :: string where
  "nl_tab = [CHR 0x0A, CHR 0x09]"

text \<open>
  Everything the driver does to the outside world, in program order: the calls on
  the bus connection and the calls of \<open>time.Sleep\<close> (in milliseconds).
\<close>

datatype event =
    EvWrite "byte list"
  | EvRead nat
  | EvWriteBlockData byte "byte list"
  | EvWriteWordData byte uint16
  | EvReadWordData byte
  | EvReadByteData byte
  | EvWriteByteData byte byte
  | EvSleep nat

text \<open>
  Modelled from the spec: the bus transport contract (the \<open>Connection\<close> interface of the
  i2c package, which is not among the source files). Section 6 of the specification
  lists its operations: \<open>write(bytes) \<rightarrow> (n, error)\<close>, \<open>read(buf) \<rightarrow> (n, error)\<close>,
  \<open>writeWordData(register, uint16) \<rightarrow> error\<close>, \<open>readWordData(register) \<rightarrow> (uint16, error)\<close>,
  \<open>writeBlockData(register, bytes) \<rightarrow> error\<close>, and the byte variants the CaliPile driver
  calls. The transport is the environment of the drivers, so what it answers is a
  parameter: each answer is an arbitrary function of the events so far and of the
  arguments of the call. Every call is appended to \<open>trace\<close>.

  \<open>i2cReadImpl\<close> answers with the bytes the transport stores into the caller's buffer
  (from index 0, as Go's \<open>copy\<close>), the count it reports and the error; the count is
  independent of the stored bytes, as it is for a Go \<open>Read\<close>.
\<close>

record Connection =
  trace :: "event list"
  i2cWriteImpl :: "event list \<Rightarrow> byte list \<Rightarrow> int \<times> error option"
  i2cReadImpl :: "event list \<Rightarrow> byte list \<Rightarrow> byte list \<times> int \<times> error option"
  i2cWriteBlockDataImpl :: "event list \<Rightarrow> byte \<Rightarrow> byte list \<Rightarrow> error option"
  i2cWriteWordDataImpl :: "event list \<Rightarrow> byte \<Rightarrow> uint16 \<Rightarrow> error option"
  i2cReadWordDataImpl :: "event list \<Rightarrow> byte \<Rightarrow> uint16 \<times> error option"
  i2cReadByteDataImpl :: "event list \<Rightarrow> byte \<Rightarrow> byte \<times> error option"
  i2cWriteByteDataImpl :: "event list \<Rightarrow> byte \<Rightarrow> byte \<Rightarrow> error option"

definition log_event :: "event \<Rightarrow> Connection \<Rightarrow> Connection" where
  "log_event e c = c\<lparr>trace := trace c @ [e]\<rparr>"

definition conn_Write :: "Connection \<Rightarrow> byte list \<Rightarrow> (int \<times> error option) \<times> Connection" where
  "conn_Write c b = (i2cWriteImpl c (trace c) b, log_event (EvWrite b) c)"

text \<open>\<open>copy(dst, src)\<close>: overwrites the first \<open>min (len dst) (len src)\<close> bytes of \<open>dst\<close>.\<close>

definition copy_into :: "byte list \<Rightarrow> byte list \<Rightarrow> byte list" where
  "copy_into dst src = take (length dst) src @ drop (length src) dst"

definition conn_Read ::
  "Connection \<Rightarrow> byte list \<Rightarrow> (byte list \<times> int \<times> error option) \<times> Connection" where
  "conn_Read c buf =
     (case i2cReadImpl c (trace c) buf of
        (stored, n, err) \<Rightarrow> ((copy_into buf stored, n, err), log_event (EvRead (length buf)) c))"

definition conn_WriteBlockData ::
  "Connection \<Rightarrow> byte \<Rightarrow> byte list \<Rightarrow> error option \<times> Connection" where
  "conn_WriteBlockData c reg b =
     (i2cWriteBlockDataImpl c (trace c) reg b, log_event (EvWriteBlockData reg b) c)"

definition conn_WriteWordData ::
  "Connection \<Rightarrow> byte \<Rightarrow> uint16 \<Rightarrow> error option \<times> Connection" where
  "conn_WriteWordData c reg v =
     (i2cWriteWordDataImpl c (trace c) reg v, log_event (EvWriteWordData reg v) c)"

definition conn_ReadWordData ::
  "Connection \<Rightarrow> byte \<Rightarrow> (uint16 \<times> error option) \<times> Connection" where
  "conn_ReadWordData c reg =
     (i2cReadWordDataImpl c (trace c) reg, log_event (EvReadWordData reg) c)"


definition conn_WriteByteData ::
  "Connection \<Rightarrow> byte \<Rightarrow> byte \<Rightarrow> error option \<times> Connection" where
  "conn_WriteByteData c reg v =
     (i2cWriteByteDataImpl c (trace c) reg v, log_event (EvWriteByteData reg v) c)"

definition time_Sleep :: "nat \<Rightarrow> Connection \<Rightarrow> Connection" where
  "time_Sleep ms c = log_event (EvSleep ms) c"

text \<open>
  Modelled from the spec: the \<open>Config\<close> collaborator of the i2c package (not among the
  source files); the specification says the connection is opened "at configured (or
  default 0x5A) address". \<open>cfg_address = None\<close> is an address that was never configured.
\<close>

record Config =
  cfg_address :: "int option"

definition GetAddressOrDefault :: "Config \<Rightarrow> int \<Rightarrow> int" where
  "GetAddressOrDefault cfg dflt = (case cfg_address cfg of None \<Rightarrow> dflt | Some a \<Rightarrow> a)"

text \<open>
  A call either returns or panics (an index out of range on a slice). The returned
  value is the tuple of Go's results.
\<close>

datatype 'a outcome = Return 'a | Panic

section \<open>MLX90614: \<open>drivers/i2c/mlx90614_driver.go\<close>\<close>

definition mlx90614DefaultSlaveAddress :: int where "mlx90614DefaultSlaveAddress = 0x5A"
definition mlx90614RegisterKE :: byte where "mlx90614RegisterKE = 0x24"
definition mlx90614RegisterConfig :: byte where "mlx90614RegisterConfig = 0x25"

text \<open>
  \<open>crc8ccitt\<close>, lines 149-160. The loop \<open>for i := 0; i < 8; i++\<close> is \<open>crc8_loop\<close>,
  started at \<open>i = 0\<close>; its body shifts first and tests bit 7 of the shifted byte.
\<close>

function crc8_loop :: "nat \<Rightarrow> byte \<Rightarrow> byte" where
  "crc8_loop i data =
     (if i < 8 then
        (let data1 = push_bit 1 data;
             data2 = (if data1 AND 0x80 \<noteq> 0 then data1 XOR 0x07 else data1)
         in crc8_loop (i + 1) data2)
      else data)"
  by pat_completeness auto
termination
  by (relation "measure (\<lambda>(i, data). 8 - i)") auto

definition crc8ccitt :: "byte \<Rightarrow> byte \<Rightarrow> byte" where
  "crc8ccitt inCRC inData = crc8_loop 0 (inCRC XOR inData)"

text \<open>
  \<open>uint8(d.GetAddressOrDefault(mlx90614DefaultSlaveAddress) << 1)\<close>: the slave write
  address, the configured address shifted left and truncated to a byte.
\<close>

definition slaveWriteAddress :: "Config \<Rightarrow> byte" where
  "slaveWriteAddress cfg = word_of_int (GetAddressOrDefault cfg mlx90614DefaultSlaveAddress * 2)"

text \<open>
  The packet error code of \<open>write\<close> (lines 168-172) and of \<open>read\<close> (lines 207-212),
  each the chain of \<open>crc8ccitt\<close> calls of its function, in the source's order.
\<close>

definition write_pec :: "Config \<Rightarrow> byte \<Rightarrow> byte \<Rightarrow> byte \<Rightarrow> byte" where
  "write_pec cfg address lsb msb =
     (let pec = crc8ccitt 0 (slaveWriteAddress cfg);
          pec = crc8ccitt pec address;
          pec = crc8ccitt pec lsb;
          pec = crc8ccitt pec msb
      in pec)"

definition read_pec :: "Config \<Rightarrow> byte \<Rightarrow> byte \<Rightarrow> byte \<Rightarrow> byte" where
  "read_pec cfg address lsb msb =
     (let pec = crc8ccitt 0 (slaveWriteAddress cfg);
          pec = crc8ccitt pec address;
          pec = crc8ccitt pec (slaveWriteAddress cfg + 1);
          pec = crc8ccitt pec lsb;
          pec = crc8ccitt pec msb
      in pec)"

text \<open>\<open>MLX90614Driver.write\<close>, lines 164-177.\<close>

definition MLX90614_write :: "Config \<Rightarrow> Connection \<Rightarrow> byte \<Rightarrow> uint16 \<Rightarrow> error option \<times> Connection" where
  "MLX90614_write cfg c address data =
     (let lsb = (ucast (data AND 0x00FF) :: byte);
          msb = (ucast (drop_bit 8 data) :: byte);
          pec = write_pec cfg address lsb msb
      in conn_WriteBlockData c address [address, lsb, msb, pec])"

text \<open>
  The retry loop of \<open>read\<close> (lines 190-197, and the same loop in the TMP007 driver):
  up to \<open>numRetries\<close> calls of \<open>connection.Read\<close>, leaving at the first one that
  reports \<open>n\<close> bytes and no error. The variables \<open>buf\<close>, \<open>bytesRead\<close> and \<open>err\<close> keep
  the values of the last call.
\<close>

fun read_retry ::
  "nat \<Rightarrow> nat \<Rightarrow> Connection \<Rightarrow> byte list \<Rightarrow> int \<Rightarrow> error option
     \<Rightarrow> (byte list \<times> int \<times> error option) \<times> Connection" where
  "read_retry 0 n c buf bytesRead err = ((buf, bytesRead, err), c)"
| "read_retry (Suc numRetries) n c buf bytesRead err =
     (case conn_Read c buf of
        ((buf1, bytesRead1, err1), c1) \<Rightarrow>
          if bytesRead1 = int n \<and> err1 = None then ((buf1, bytesRead1, err1), c1)
          else read_retry numRetries n c1 buf1 bytesRead1 err1)"

text \<open>
  \<open>MLX90614Driver.read\<close>, lines 180-219. \<open>make([]byte, n)\<close> is \<open>replicate n 0\<close>
  (the callers pass the literal 3, so \<open>n\<close> is a natural number), a \<open>nil\<close> slice is
  \<open>[]\<close>; indexing \<open>buf[0]\<close>, \<open>buf[1]\<close>, \<open>buf[2]\<close> panics when the buffer is shorter
  than three bytes.
\<close>

definition MLX90614_read ::
  "Config \<Rightarrow> Connection \<Rightarrow> byte \<Rightarrow> nat \<Rightarrow> (byte list \<times> error option) outcome \<times> Connection" where
  "MLX90614_read cfg c address n =
     (case conn_Write c [address] of
        ((_, Some err), c1) \<Rightarrow>
          (Return ([], Some (fmt_Errorf ''MLX90614::read() failed to send command: '' err)), c1)
      | ((_, None), c1) \<Rightarrow>
          (case read_retry 50 n c1 (replicate n 0) 0 None of
             ((buf, bytesRead, Some err), c2) \<Rightarrow>
               (Return ([], Some (fmt_Errorf ''MLX90614::read() failed to read from connection: '' err)), c2)
           | ((buf, bytesRead, None), c2) \<Rightarrow>
               if length buf < 3 then (Panic, c2)
               else
                 (let lsb = buf ! 0; msb = buf ! 1; pecIncoming = buf ! 2;
                      pec = read_pec cfg address lsb msb
                  in if pecIncoming = pec then (Return (buf, None), c2)
                     else (Return ([], Some (fmt_Errorf_ints
                             ''MLX90614::read() PEC mismatch exp:%X act:%X''
                             [uint pec, uint pecIncoming])), c2))))"

text \<open>\<open>MLX90614Driver.readUint16\<close>, lines 221-229.\<close>

definition MLX90614_readUint16 ::
  "Config \<Rightarrow> Connection \<Rightarrow> byte \<Rightarrow> (uint16 \<times> error option) outcome \<times> Connection" where
  "MLX90614_readUint16 cfg c address =
     (case MLX90614_read cfg c address 3 of
        (Panic, c1) \<Rightarrow> (Panic, c1)
      | (Return (b, Some err), c1) \<Rightarrow>
          (Return (0, Some (fmt_Errorf ''MLX90614::readUint16() failed: '' err)), c1)
      | (Return (b, None), c1) \<Rightarrow>
          if length b < 2 then (Panic, c1)
          else (Return (push_bit 8 (ucast (b ! 0) :: uint16) OR ucast (b ! 1), None), c1))"

text \<open>\<open>MLX90614Driver.writeEEPROM\<close>, lines 241-257.\<close>

definition MLX90614_writeEEPROM ::
  "Config \<Rightarrow> Connection \<Rightarrow> byte \<Rightarrow> uint16 \<Rightarrow> error option \<times> Connection" where
  "MLX90614_writeEEPROM cfg c address data =
     (case MLX90614_write cfg c address 0 of
        (Some err, c1) \<Rightarrow>
          (Some (fmt_Errorf ''MLX90614::writeEEPROM() failed to erase cell content: '' err), c1)
      | (None, c1) \<Rightarrow>
          (case MLX90614_write cfg (time_Sleep 5 c1) address data of
             (Some err, c2) \<Rightarrow>
               (Some (fmt_Errorf ''MLX90614::writeEEPROM() failed to write new cell content: '' err), c2)
           | (None, c2) \<Rightarrow> (None, time_Sleep 5 c2)))"


text \<open>\<open>MLX90614Driver.ReadConfig\<close>, lines 407-409.\<close>

definition MLX90614_ReadConfig ::
  "Config \<Rightarrow> Connection \<Rightarrow> (uint16 \<times> error option) outcome \<times> Connection" where
  "MLX90614_ReadConfig cfg c = MLX90614_readUint16 cfg c mlx90614RegisterConfig"

text \<open>
  Go's \<open>float64\<close>. Finite values are exact reals (the rounding of IEEE 754 to a 53-bit
  mantissa is not represented, nor is overflow to an infinity); the infinities and
  NaN that a division by zero produces are values of their own, with the IEEE rules
  for them. Every zero is taken as positive: the divisors of the drivers are
  conversions of unsigned integers.
\<close>

datatype float64 = Finite real | PosInf | NegInf | NaN

fun fneg :: "float64 \<Rightarrow> float64" where
  "fneg (Finite a) = Finite (- a)"
| "fneg PosInf = NegInf"
| "fneg NegInf = PosInf"
| "fneg NaN = NaN"

fun fadd :: "float64 \<Rightarrow> float64 \<Rightarrow> float64" where
  "fadd NaN y = NaN"
| "fadd x NaN = NaN"
| "fadd (Finite a) (Finite b) = Finite (a + b)"
| "fadd PosInf NegInf = NaN"
| "fadd NegInf PosInf = NaN"
| "fadd PosInf y = PosInf"
| "fadd NegInf y = NegInf"
| "fadd (Finite a) y = y"

definition fsub :: "float64 \<Rightarrow> float64 \<Rightarrow> float64" where
  "fsub x y = fadd x (fneg y)"

definition inf_of_sign :: "bool \<Rightarrow> float64" where
  "inf_of_sign negative = (if negative then NegInf else PosInf)"

fun is_negative :: "float64 \<Rightarrow> bool" where
  "is_negative (Finite a) = (a < 0)"
| "is_negative NegInf = True"
| "is_negative PosInf = False"
| "is_negative NaN = False"

fun fmul :: "float64 \<Rightarrow> float64 \<Rightarrow> float64" where
  "fmul NaN y = NaN"
| "fmul x NaN = NaN"
| "fmul (Finite a) (Finite b) = Finite (a * b)"
| "fmul (Finite a) y = (if a = 0 then NaN else inf_of_sign ((a < 0) \<noteq> is_negative y))"
| "fmul x (Finite b) = (if b = 0 then NaN else inf_of_sign (is_negative x \<noteq> (b < 0)))"
| "fmul x y = inf_of_sign (is_negative x \<noteq> is_negative y)"

fun fdiv :: "float64 \<Rightarrow> float64 \<Rightarrow> float64" where
  "fdiv NaN y = NaN"
| "fdiv x NaN = NaN"
| "fdiv (Finite a) (Finite b) =
     (if b = 0 then (if a = 0 then NaN else inf_of_sign (a < 0)) else Finite (a / b))"
| "fdiv (Finite a) y = Finite 0"
| "fdiv x (Finite b) = inf_of_sign (is_negative x \<noteq> (b < 0))"
| "fdiv x y = NaN"


definition float64_of_int16 :: "uint16 \<Rightarrow> float64" where
  "float64_of_int16 v = Finite (real_of_int (sint v))"

text \<open>
  The two map literals of \<open>WriteFilterConfig\<close> (lines 436-452); indexing a Go map
  with a key it does not hold gives the zero value.
\<close>

definition firSettingsMap :: "byte \<rightharpoonup> real" where
  "firSettingsMap = [0x04 \<mapsto> 5.184, 0x05 \<mapsto> 9.28, 0x06 \<mapsto> 17.472, 0x07 \<mapsto> 33.856]"

definition iirSettingsMap :: "byte \<rightharpoonup> real" where
  "iirSettingsMap =
     [0x00 \<mapsto> 10, 0x01 \<mapsto> 10, 0x02 \<mapsto> 10, 0x03 \<mapsto> 10, 0x04 \<mapsto> 1, 0x05 \<mapsto> 4, 0x06 \<mapsto> 8, 0x07 \<mapsto> 9]"

definition map_index :: "(byte \<rightharpoonup> real) \<Rightarrow> byte \<Rightarrow> float64" where
  "map_index m k = (case m k of None \<Rightarrow> Finite 0 | Some v \<Rightarrow> Finite v)"

text \<open>
  Line 458 (and the last line of \<open>SettlingTimeFromConfig\<close> in the other revision):
  \<open>9.719 + (iirS * (firS + 5.26)) + (iirS * (firS + 12.542)) + (dual * iirS * (firS + 12.542))\<close>,
  with Go's left-to-right grouping of \<open>+\<close> and \<open>*\<close>.
\<close>

definition settling_expr :: "float64 \<Rightarrow> float64 \<Rightarrow> float64 \<Rightarrow> float64" where
  "settling_expr dual firS iirS =
     fadd (fadd (fadd (Finite 9.719) (fmul iirS (fadd firS (Finite 5.26))))
                (fmul iirS (fadd firS (Finite 12.542))))
          (fmul (fmul dual iirS) (fadd firS (Finite 12.542)))"

text \<open>\<open>MLX90614Driver.WriteFilterConfig\<close>, lines 413-477.\<close>

definition MLX90614_WriteFilterConfig ::
  "Config \<Rightarrow> Connection \<Rightarrow> byte \<Rightarrow> byte \<Rightarrow> (float64 \<times> error option) outcome \<times> Connection" where
  "MLX90614_WriteFilterConfig cfg c fir iir =
     (if fir < 0x04 then
        (Return (Finite 0, Some (errors_New
           ''MLX90614::WriteFilterConfig() FIR out of range: must be at least 0x04'')), c)
      else if fir > 0x07 \<or> iir > 0x07 then
        (Return (Finite 0, Some (errors_New
           ''MLX90614::WriteFilterConfig() FIR or IIR out of range: each must be less than 0x08'')), c)
      else
        (case MLX90614_ReadConfig cfg c of
           (Panic, c1) \<Rightarrow> (Panic, c1)
         | (Return (config, Some err), c1) \<Rightarrow>
             (Return (Finite 0, Some (fmt_Errorf
                ''MLX90614::WriteFilterConfig() failed to read config: '' err)), c1)
         | (Return (config, None), c1) \<Rightarrow>
             (let dual = (if config AND 0x40 \<noteq> 0 then Finite 1 else Finite 0);
                  firS = map_index firSettingsMap fir;
                  iirS = map_index iirSettingsMap iir;
                  tSet = settling_expr dual firS iirS;
                  fir16 = push_bit 8 (ucast fir :: uint16);
                  iir16 = (ucast iir :: uint16);
                  config1 = config OR fir16;
                  config2 = config1 OR iir16
              in (case MLX90614_writeEEPROM cfg c1 mlx90614RegisterConfig config2 of
                    (Some err, c2) \<Rightarrow>
                      (Return (tSet, Some (fmt_Errorf
                         ''MLX90614::WriteFilterConfig() failed: '' err)), c2)
                  | (None, c2) \<Rightarrow> (Return (tSet, None), c2)))))"

section \<open>MLX90614, the revision on the word-data primitives: \<open>unnamed/part_002\<close>\<close>

text \<open>
  The retry loop of \<open>read\<close> (lines 154-162 of part_002): up to \<open>numRetries\<close> calls of
  \<open>connection.ReadWordData\<close>, leaving at the first one without an error.
\<close>

fun readword_retry ::
  "nat \<Rightarrow> Connection \<Rightarrow> byte \<Rightarrow> uint16 \<Rightarrow> error option
     \<Rightarrow> (uint16 \<times> error option) \<times> Connection" where
  "readword_retry 0 c address val16 err = ((val16, err), c)"
| "readword_retry (Suc numRetries) c address val16 err =
     (case conn_ReadWordData c address of
        ((val16a, err1), c1) \<Rightarrow>
          if err1 = None then ((val16a, err1), c1)
          else readword_retry numRetries c1 address val16a err1)"

text \<open>\<open>MLX90614Driver.read\<close>, lines 151-169 of part_002.\<close>

definition MLX90614_read_part002 ::
  "Connection \<Rightarrow> byte \<Rightarrow> (uint16 \<times> error option) \<times> Connection" where
  "MLX90614_read_part002 c address =
     (case readword_retry 10 c address 0 None of
        ((val16, Some err), c1) \<Rightarrow> ((0, Some (fmt_Errorf (''MLX90614::read() error:'' @ nl_tab) err)), c1)
      | ((val16, None), c1) \<Rightarrow> ((val16, None), c1))"

text \<open>
  \<open>MLX90614Driver.write\<close>, lines 172-187 of part_002: the \<open>switch\<close> with its two
  \<open>fallthrough\<close> cases returns the error for the registers 0x24, 0x19 and 0x0F. The
  call of \<open>log.Printf\<close> writes to the process log and is no event of the bus.
\<close>

definition MLX90614_write_part002 ::
  "Connection \<Rightarrow> byte \<Rightarrow> uint16 \<Rightarrow> error option \<times> Connection" where
  "MLX90614_write_part002 c address data =
     (if address = mlx90614RegisterKE \<or> address = 0x19 \<or> address = 0x0F then
        (Some (errors_New ''Refusing to write to protected register, see datasheet''), c)
      else conn_WriteWordData c address data)"

text \<open>\<open>MLX90614Driver.writeEEPROM\<close>, lines 189-205 of part_002.\<close>

definition MLX90614_writeEEPROM_part002 ::
  "Connection \<Rightarrow> byte \<Rightarrow> uint16 \<Rightarrow> error option \<times> Connection" where
  "MLX90614_writeEEPROM_part002 c address data =
     (case MLX90614_write_part002 c address 0 of
        (Some err, c1) \<Rightarrow>
          (Some (fmt_Errorf (''MLX90614::writeEEPROM() failed to erase cell content:'' @ nl_tab) err), c1)
      | (None, c1) \<Rightarrow>
          (case MLX90614_write_part002 (time_Sleep 5 c1) address data of
             (Some err, c2) \<Rightarrow>
               (Some (fmt_Errorf (''MLX90614::writeEEPROM() failed to write new cell content:'' @ nl_tab) err), c2)
           | (None, c2) \<Rightarrow> (None, time_Sleep 5 c2)))"

text \<open>
  \<open>MLX90614Driver.SettlingTimeFromConfig\<close>, lines 424-458 of part_002. In Go \<open>&\<close> and
  \<open>>>\<close> have the same precedence and group to the left, so
  \<open>config & 0x700 >> 8\<close> is \<open>(config & 0x700) >> 8\<close>.
\<close>

definition MLX90614_SettlingTimeFromConfig_part002 :: "uint16 \<Rightarrow> float64" where
  "MLX90614_SettlingTimeFromConfig_part002 config =
     (let dual = (if config AND 0x40 \<noteq> 0 then Finite 1 else Finite 0);
          fir = (ucast (drop_bit 8 (config AND 0x700)) :: byte);
          iir = (ucast (config AND 0x7) :: byte);
          firS = map_index firSettingsMap fir;
          iirS = map_index iirSettingsMap iir
      in settling_expr dual firS iirS)"

text \<open>\<open>MLX90614Driver.ReadConfig\<close>, lines 380-383 of part_002.\<close>

definition MLX90614_ReadConfig_part002 ::
  "Connection \<Rightarrow> (uint16 \<times> error option) \<times> Connection" where
  "MLX90614_ReadConfig_part002 c = MLX90614_read_part002 c mlx90614RegisterConfig"

text \<open>\<open>MLX90614Driver.WriteFilterConfig\<close>, lines 385-422 of part_002.\<close>

definition MLX90614_WriteFilterConfig_part002 ::
  "Connection \<Rightarrow> byte \<Rightarrow> byte \<Rightarrow> (float64 \<times> error option) \<times> Connection" where
  "MLX90614_WriteFilterConfig_part002 c fir iir =
     (if fir < 0x04 then
        ((Finite 0, Some (errors_New
           ''MLX90614::WriteFilterConfig() FIR out of range: must be at least 0x04'')), c)
      else if fir > 0x07 \<or> iir > 0x07 then
        ((Finite 0, Some (errors_New
           ''MLX90614::WriteFilterConfig() FIR or IIR out of range: each must be less than 0x08'')), c)
      else
        (case MLX90614_ReadConfig_part002 c of
           ((config, Some err), c1) \<Rightarrow>
             ((Finite 0, Some (fmt_Errorf
                (''MLX90614::WriteFilterConfig() failed to read config:'' @ nl_tab) err)), c1)
         | ((config, None), c1) \<Rightarrow>
             (let tSet = MLX90614_SettlingTimeFromConfig_part002 config;
                  fir16 = push_bit 8 (ucast fir :: uint16);
                  config1 = config AND 0xF8FF;
                  config2 = config1 OR fir16;
                  iir16 = (ucast iir :: uint16);
                  config3 = config2 AND 0xFFF8;
                  config4 = config3 OR iir16
              in (case MLX90614_writeEEPROM_part002 c1 mlx90614RegisterConfig config4 of
                    (Some err, c2) \<Rightarrow>
                      ((tSet, Some (fmt_Errorf (''MLX90614::WriteFilterConfig() failed:'' @ nl_tab) err)), c2)
                  | (None, c2) \<Rightarrow> ((tSet, None), c2)))))"

section \<open>TMP007: \<open>drivers/i2c/tmp007.go\<close>\<close>

definition tmp007RegisterVSensor :: byte where "tmp007RegisterVSensor = 0x00"
definition tmp007RegisterTDie :: byte where "tmp007RegisterTDie = 0x01"
definition tmp007RegisterTObj :: byte where "tmp007RegisterTObj = 0x03"

text \<open>\<open>TMP007Driver.read\<close>, lines 130-149; the loop is \<open>read_retry\<close>.\<close>

definition TMP007_read ::
  "Connection \<Rightarrow> byte \<Rightarrow> nat \<Rightarrow> (byte list \<times> error option) \<times> Connection" where
  "TMP007_read c address n =
     (case conn_Write c [address] of
        ((_, Some err), c1) \<Rightarrow> (([], Some err), c1)
      | ((_, None), c1) \<Rightarrow>
          (case read_retry 50 n c1 (replicate n 0) 0 None of
             ((buf, bytesRead, err), c2) \<Rightarrow> ((buf, err), c2)))"

text \<open>\<open>nDVtoBool\<close>, lines 158-163.\<close>

definition nDVtoBool :: "uint16 \<Rightarrow> bool" where
  "nDVtoBool raw = (if raw AND 0x01 \<noteq> 0 then False else True)"

text \<open>
  \<open>int16(b[0])<<8 | int16(b[1])\<close>: the 16-bit pattern with \<open>b[0]\<close> as its high byte.
  The value is held as the bit pattern; \<open>sint\<close> reads it as Go's \<open>int16\<close>.
\<close>

definition int16_of_bytes :: "byte \<Rightarrow> byte \<Rightarrow> uint16" where
  "int16_of_bytes b0 b1 = push_bit 8 (ucast b0 :: uint16) OR ucast b1"

text \<open>
  \<open>TMP007Driver.ReadDieTempC\<close>, lines 165-183. \<open>raw >> 2\<close> on an \<open>int16\<close> is the
  arithmetic shift, \<open>signed_drop_bit\<close>.
\<close>

definition TMP007_ReadDieTempC ::
  "Connection \<Rightarrow> (float64 \<times> error option) outcome \<times> Connection" where
  "TMP007_ReadDieTempC c =
     (case TMP007_read c tmp007RegisterTDie 2 of
        ((b, Some err), c1) \<Rightarrow> (Return (Finite 0, Some err), c1)
      | ((b, None), c1) \<Rightarrow>
          if length b < 2 then (Panic, c1)
          else
            (let raw = int16_of_bytes (b ! 0) (b ! 1);
                 isValid = nDVtoBool raw
             in if \<not> isValid then (Return (Finite 0, Some (errors_New ''nDV bit is set'')), c1)
                else
                  (let raw1 = signed_drop_bit 2 raw;
                       tDie = fmul (float64_of_int16 raw1) (Finite 0.03125)
                   in (Return (tDie, None), c1))))"

text \<open>\<open>TMP007Driver.ReadObjTempC\<close>, lines 185-203.\<close>

definition TMP007_ReadObjTempC ::
  "Connection \<Rightarrow> (float64 \<times> error option) outcome \<times> Connection" where
  "TMP007_ReadObjTempC c =
     (case TMP007_read c tmp007RegisterTObj 2 of
        ((b, Some err), c1) \<Rightarrow> (Return (Finite 0, Some err), c1)
      | ((b, None), c1) \<Rightarrow>
          if length b < 2 then (Panic, c1)
          else
            (let raw = int16_of_bytes (b ! 0) (b ! 1);
                 isValid = nDVtoBool raw
             in if \<not> isValid then (Return (Finite 0, Some (errors_New ''nDV bit is set'')), c1)
                else
                  (let raw1 = signed_drop_bit 2 raw;
                       tObj = fmul (float64_of_int16 raw1) (Finite 0.03125)
                   in (Return (tObj, None), c1))))"

text \<open>\<open>TMP007Driver.ReadSensorVoltage\<close>, lines 205-217.\<close>

definition TMP007_ReadSensorVoltage ::
  "Connection \<Rightarrow> (float64 \<times> error option) outcome \<times> Connection" where
  "TMP007_ReadSensorVoltage c =
     (case TMP007_read c tmp007RegisterVSensor 2 of
        ((b, Some err), c1) \<Rightarrow> (Return (Finite 0, Some err), c1)
      | ((b, None), c1) \<Rightarrow>
          if length b < 2 then (Panic, c1)
          else
            (let raw = int16_of_bytes (b ! 0) (b ! 1);
                 vSensor = fdiv (fmul (float64_of_int16 raw) (Finite 156.25)) (Finite 1000)
             in (Return (vSensor, None), c1)))"

section \<open>TMP007, the revision without retries: \<open>unnamed/part_001\<close>\<close>

text \<open>\<open>TMP007Driver.read\<close>, lines 116-128 of part_001.\<close>

definition TMP007_read_part001 ::
  "Connection \<Rightarrow> byte \<Rightarrow> nat \<Rightarrow> (byte list \<times> error option) \<times> Connection" where
  "TMP007_read_part001 c address n =
     (case conn_Write c [address] of
        ((_, Some err), c1) \<Rightarrow> (([], Some err), c1)
      | ((_, None), c1) \<Rightarrow>
          (case conn_Read c1 (replicate n 0) of
             ((buf, bytesRead, err), c2) \<Rightarrow>
               if bytesRead \<noteq> int n \<or> err \<noteq> None then (([], err), c2)
               else ((buf, None), c2)))"

text \<open>
  \<open>ReadDieTempC\<close>, \<open>ReadObjTempC\<close> and \<open>ReadSensorVoltage\<close>, lines 131-163 of part_001:
  \<open>b, _ := d.read(...)\<close> drops the error, and the next line indexes \<open>b[0]\<close> and \<open>b[1]\<close>.
\<close>

definition TMP007_ReadDieTempC_part001 :: "Connection \<Rightarrow> float64 outcome \<times> Connection" where
  "TMP007_ReadDieTempC_part001 c =
     (case TMP007_read_part001 c tmp007RegisterTDie 2 of
        ((b, _), c1) \<Rightarrow>
          if length b < 2 then (Panic, c1)
          else
            (let raw = int16_of_bytes (b ! 0) (b ! 1);
                 raw1 = signed_drop_bit 2 raw;
                 tDie = fmul (float64_of_int16 raw1) (Finite 0.03125)
             in (Return tDie, c1)))"

definition TMP007_ReadObjTempC_part001 :: "Connection \<Rightarrow> float64 outcome \<times> Connection" where
  "TMP007_ReadObjTempC_part001 c =
     (case TMP007_read_part001 c tmp007RegisterTObj 2 of
        ((b, _), c1) \<Rightarrow>
          if length b < 2 then (Panic, c1)
          else
            (let raw = int16_of_bytes (b ! 0) (b ! 1);
                 raw1 = signed_drop_bit 2 raw;
                 tObj = fmul (float64_of_int16 raw1) (Finite 0.03125)
             in (Return tObj, c1)))"

definition TMP007_ReadSensorVoltage_part001 :: "Connection \<Rightarrow> float64 outcome \<times> Connection" where
  "TMP007_ReadSensorVoltage_part001 c =
     (case TMP007_read_part001 c tmp007RegisterVSensor 2 of
        ((b, _), c1) \<Rightarrow>
          if length b < 2 then (Panic, c1)
          else
            (let raw = int16_of_bytes (b ! 0) (b ! 1);
                 vSensor = fdiv (fmul (float64_of_int16 raw) (Finite 156.25)) (Finite 1000)
             in (Return vSensor, c1)))"

section \<open>CaliPile: \<open>drivers/i2c/calipile_driver.go\<close>\<close>


text \<open>The \<open>eeprom\<close> struct, lines 67-78.\<close>

record eeprom =
  protocol :: byte
  checksum :: uint16
  lookup :: byte
  ptat25 :: uint16
  m :: uint16
  u0 :: uint16
  uOut1 :: "32 word"
  tObj1 :: byte
  slaveAddress :: byte
  k :: float64



text \<open>
  \<open>CalipileDriver.CalculateTPAmbientC\<close>, lines 295-301. Its first statement calls
  \<open>CalculateTPAmbientC\<close> itself, so the model is a partial function: \<open>None\<close> is a call
  that does not return.
\<close>

partial_function (option) CalculateTPAmbientC ::
  "eeprom \<Rightarrow> Connection \<Rightarrow> ((float64 \<times> error option) \<times> Connection) option" where
  "CalculateTPAmbientC ee c =
     Option.bind (CalculateTPAmbientC ee c)
       (\<lambda>r. Some ((fsub (fst (fst r)) (Finite 273.15), snd (fst r)), snd r))"

section \<open>Stubbed transports\<close>

text \<open>
  The stubbed adaptor of \<open>mlx90614_driver_test.go\<close>: every write succeeds, and every
  \<open>Read\<close> copies \<open>resp\<close> into the buffer and reports \<open>count\<close> bytes and no error
  (the tests report \<open>buf.Len()\<close>, the length of \<open>resp\<close>). The word and byte reads,
  which those tests do not stub, answer \<open>w\<close> and \<open>regs reg\<close>.
\<close>

definition testAdaptor :: "byte list \<Rightarrow> int \<Rightarrow> uint16 \<Rightarrow> (byte \<Rightarrow> byte) \<Rightarrow> Connection" where
  "testAdaptor resp count w regs =
     \<lparr>trace = [],
      i2cWriteImpl = (\<lambda>_ b. (int (length b), None)),
      i2cReadImpl = (\<lambda>_ _. (resp, count, None)),
      i2cWriteBlockDataImpl = (\<lambda>_ _ _. None),
      i2cWriteWordDataImpl = (\<lambda>_ _ _. None),
      i2cReadWordDataImpl = (\<lambda>_ _. (w, None)),
      i2cReadByteDataImpl = (\<lambda>_ reg. (regs reg, None)),
      i2cWriteByteDataImpl = (\<lambda>_ _ _. None)\<rparr>"

text \<open>The same adaptor with block and word writes that fail, as \<open>i2cWriteImpl\<close> is made to in \<open>TestMLX90614DriverStartWriteError\<close>.\<close>

definition writeErrorAdaptor :: Connection where
  "writeErrorAdaptor =
     (testAdaptor [] 0 0 (\<lambda>_. 0))
       \<lparr>i2cWriteBlockDataImpl := (\<lambda>_ _ _. Some (errors_New ''write error'')),
        i2cWriteWordDataImpl := (\<lambda>_ _ _. Some (errors_New ''write error''))\<rparr>"

definition default_config :: Config where
  "default_config = \<lparr>cfg_address = None\<rparr>"

section \<open>Facts about the transport and the retry loops\<close>



lemma length_copy_into: "length (copy_into dst src) = length dst"
  by (simp add: copy_into_def)


text \<open>The loop never changes the length of the buffer, however the reads go.\<close>

lemma length_read_retry:
  "length (fst (fst (read_retry j n c buf bytesRead err))) = length buf"
proof (induction j arbitrary: c buf bytesRead err)
  case 0
  then show ?case by simp
next
  case (Suc j)
  show ?case
    by (auto simp add: conn_Read_def Suc.IH length_copy_into split: prod.splits)
qed

section \<open>MLX90614: the write path\<close>

text \<open>
  \<open>write\<close> of \<open>mlx90614_driver.go\<close> sends one block transaction for every register
  and every data word: there is no register it refuses.
\<close>

lemma MLX90614_write_event:
  "MLX90614_write cfg c address data =
     (i2cWriteBlockDataImpl c (trace c) address
        [address, ucast (data AND 0x00FF), ucast (drop_bit 8 data),
         write_pec cfg address (ucast (data AND 0x00FF)) (ucast (drop_bit 8 data))],
      log_event (EvWriteBlockData address
        [address, ucast (data AND 0x00FF), ucast (drop_bit 8 data),
         write_pec cfg address (ucast (data AND 0x00FF)) (ucast (drop_bit 8 data))]) c)"
  by (simp add: MLX90614_write_def conn_WriteBlockData_def Let_def)

text \<open>
  \<open>write\<close> of part_002 returns the error for each of the three protected registers
  and leaves the connection as it was: no event is added to the trace.
\<close>

lemma write_part002_rejects_protected:
  "MLX90614_write_part002 c 0x24 data =
     (Some (errors_New ''Refusing to write to protected register, see datasheet''), c)"
  "MLX90614_write_part002 c 0x19 data =
     (Some (errors_New ''Refusing to write to protected register, see datasheet''), c)"
  "MLX90614_write_part002 c 0x0F data =
     (Some (errors_New ''Refusing to write to protected register, see datasheet''), c)"
  by (simp_all add: MLX90614_write_part002_def mlx90614RegisterKE_def)

text \<open>
  C1. The claim: for every data value and every protected register (0x24, 0x0F,
  0x19), \<open>write\<close> returns a "protected register" error and performs no bus
  operation. The revision of part_002 does so (\<open>write_part002_rejects_protected\<close>).
  \<open>write\<close> of \<open>mlx90614_driver.go\<close>, whose comment reads "TODO Guard: Ke [15...0]; ...
  addresses 0x0F and 0x19", does not: on the stubbed adaptor, \<open>write(0x24, 0x1234)\<close>
  returns \<open>nil\<close> after sending the block \<open>[0x24, 0x34, 0x12, PEC]\<close> to the emissivity
  cell.
\<close>

theorem C1_write_sends_to_protected_register:
  "fst (MLX90614_write default_config (testAdaptor [] 0 0 (\<lambda>_. 0)) 0x24 0x1234) = None \<and>
   trace (snd (MLX90614_write default_config (testAdaptor [] 0 0 (\<lambda>_. 0)) 0x24 0x1234)) =
     [EvWriteBlockData 0x24 [0x24, 0x34, 0x12, 0x0A]]"
  by code_simp

section \<open>MLX90614: the read path and its packet error code\<close>


text \<open>
  The model of \<open>crc8ccitt\<close> and of the read path's chain reproduces the packet
  error codes of the responses in \<open>mlx90614_driver_test.go\<close> (address 0x5A): 0xC9
  for \<open>{0x00, 0x5A}\<close> of register 0x2E, and 0x4E, 0xB7, 0xBB, 0x42 for
  \<open>{0xBE, 0xEF}\<close> of the four ID registers.
\<close>

lemma read_pec_test_vectors:
  "read_pec default_config 0x2E 0x00 0x5A = 0xC9"
  "read_pec default_config 0x3C 0xBE 0xEF = 0x4E"
  "read_pec default_config 0x3D 0xBE 0xEF = 0xB7"
  "read_pec default_config 0x3E 0xBE 0xEF = 0xBB"
  "read_pec default_config 0x3F 0xBE 0xEF = 0x42"
  by code_simp+




section \<open>MLX90614: the EEPROM write sequence\<close>

text \<open>
  C3, the claim as stated is false in its last part ("the write phase is attempted
  even if the erase phase fails"). On an adaptor whose block writes fail,
  \<open>writeEEPROM(0x25, 0x1234)\<close> returns the erase-phase error after one bus write, the
  write of zero; no second write and no sleep follow.
\<close>

theorem C3_write_phase_skipped_when_erase_fails:
  "fst (MLX90614_writeEEPROM default_config writeErrorAdaptor 0x25 0x1234) =
     Some (fmt_Errorf ''MLX90614::writeEEPROM() failed to erase cell content: ''
            (errors_New ''write error'')) \<and>
   trace (snd (MLX90614_writeEEPROM default_config writeErrorAdaptor 0x25 0x1234)) =
     [EvWriteBlockData 0x25 [0x25, 0x00, 0x00, 0x78]]"
  by code_simp

text \<open>
  C3, amended. For every register and data value, \<open>writeEEPROM\<close> first issues the
  write of zero. If that write fails, it returns the error of the erase phase and
  nothing else happens on the bus: the write phase is not attempted. Otherwise it
  sleeps 5 ms and issues the real write, never in another order; if that fails it
  returns the error of the write phase, and otherwise it sleeps 5 ms again and
  returns \<open>nil\<close>. The two errors carry different messages, so the caller can tell
  the phase that failed.
\<close>

theorem C3_writeEEPROM_phases:
  "MLX90614_writeEEPROM cfg c address data =
     (let lsb = ucast (data AND 0x00FF); msb = ucast (drop_bit 8 data);
          erase = [address, 0, 0, write_pec cfg address 0 0];
          new = [address, lsb, msb, write_pec cfg address lsb msb];
          t1 = trace c @ [EvWriteBlockData address erase];
          t2 = t1 @ [EvSleep 5, EvWriteBlockData address new]
      in case i2cWriteBlockDataImpl c (trace c) address erase of
           Some err \<Rightarrow>
             (Some (fmt_Errorf ''MLX90614::writeEEPROM() failed to erase cell content: '' err),
              c\<lparr>trace := t1\<rparr>)
         | None \<Rightarrow>
             (case i2cWriteBlockDataImpl c (t1 @ [EvSleep 5]) address new of
                Some err \<Rightarrow>
                  (Some (fmt_Errorf ''MLX90614::writeEEPROM() failed to write new cell content: '' err),
                   c\<lparr>trace := t2\<rparr>)
              | None \<Rightarrow> (None, c\<lparr>trace := t2 @ [EvSleep 5]\<rparr>)))"
  by (simp add: MLX90614_writeEEPROM_def MLX90614_write_event time_Sleep_def log_event_def
        Let_def split: option.split)

text \<open>
  The amended C3 on the stubbed adaptor, where both phases succeed: the erase write,
  the sleep, the write of 0x1234 and the second sleep, in this order.
\<close>

theorem C3_writeEEPROM_phases_witness:
  "fst (MLX90614_writeEEPROM default_config (testAdaptor [] 0 0 (\<lambda>_. 0)) 0x25 0x1234) = None \<and>
   trace (snd (MLX90614_writeEEPROM default_config (testAdaptor [] 0 0 (\<lambda>_. 0)) 0x25 0x1234)) =
     [EvWriteBlockData 0x25 [0x25, 0x00, 0x00, 0x78], EvSleep 5,
      EvWriteBlockData 0x25 [0x25, 0x34, 0x12, 0x40], EvSleep 5]"
proof -
  have P0: "write_pec default_config 0x25 0 0 = 0x78" by code_simp
  have P1: "write_pec default_config 0x25 0x34 0x12 = 0x40" by code_simp
  have lo: "(ucast ((0x1234 :: uint16) AND 0x00FF) :: byte) = 0x34" by simp
  have hi: "(ucast (drop_bit 8 (0x1234 :: uint16)) :: byte) = 0x12" by simp
  show ?thesis
    unfolding C3_writeEEPROM_phases [of default_config "testAdaptor [] 0 0 (\<lambda>_. 0)" "0x25" "0x1234"]
      Let_def lo hi P0 P1
    by (simp add: testAdaptor_def)
qed

text \<open>
  The revision of part_002 has the same early return: when its erase write fails
  (for a protected register, without any bus operation), the write phase is not
  attempted.
\<close>

lemma writeEEPROM_part002_erase_fails:
  assumes "MLX90614_write_part002 c address 0 = (Some err, c1)"
  shows "MLX90614_writeEEPROM_part002 c address data =
           (Some (fmt_Errorf (''MLX90614::writeEEPROM() failed to erase cell content:'' @ nl_tab) err), c1)"
  using assms by (simp add: MLX90614_writeEEPROM_part002_def)

section \<open>MLX90614: the filter configuration\<close>

lemma lt8_cases: "n < (8::nat) \<Longrightarrow> n \<in> {0, 1, 2, 3, 4, 5, 6, 7}"
  by simp arith

lemma lt16_cases:
  "n < (16::nat) \<Longrightarrow> n \<in> {0, 1, 2, 3, 4, 5, 6, 7, 8, 9, 10, 11, 12, 13, 14, 15}"
  by simp arith

lemma byte_le7_cases:
  assumes "(x :: byte) \<le> 7"
  shows "x \<in> {0, 1, 2, 3, 4, 5, 6, 7}"
proof -
  have "unat x < 8"
    using assms by (simp add: word_le_nat_alt)
  then have "unat x \<in> {0, 1, 2, 3, 4, 5, 6, 7}"
    by (rule lt8_cases)
  then show ?thesis by (auto simp add: word_unat_eq_iff)
qed

lemma fir_cases:
  assumes "4 \<le> (fir :: byte)" "fir \<le> 7"
  shows "fir \<in> {4, 5, 6, 7}"
  using byte_le7_cases [OF assms(2)] assms(1) by (auto simp add: word_le_nat_alt)

lemma map_index_fir:
  assumes "4 \<le> fir" "fir \<le> 7"
  shows "map_index firSettingsMap fir = Finite (the (firSettingsMap fir))"
  using fir_cases [OF assms] by (auto simp add: map_index_def firSettingsMap_def)

lemma map_index_iir:
  assumes "iir \<le> 7"
  shows "map_index iirSettingsMap iir = Finite (the (iirSettingsMap iir))"
  using byte_le7_cases [OF assms] by (auto simp add: map_index_def iirSettingsMap_def)

lemma dual_bit6: "(config AND 0x40 \<noteq> 0) = bit (config :: uint16) 6"
  using and_exp_eq_0_iff_not_bit [of config 6] by simp

text \<open>
  Both revisions reject a FIR below 4 and a FIR or IIR above 7 with an error and
  leave the connection as it was: nothing is read from or written to the bus.
\<close>

lemma WriteFilterConfig_rejects:
  assumes "fir < 4 \<or> 7 < fir \<or> 7 < iir"
  shows "\<exists>msg. MLX90614_WriteFilterConfig cfg c fir iir =
           (Return (Finite 0, Some (errors_New msg)), c)"
  using assms by (auto simp add: MLX90614_WriteFilterConfig_def)

lemma WriteFilterConfig_part002_rejects:
  assumes "fir < 4 \<or> 7 < fir \<or> 7 < iir"
  shows "\<exists>msg. MLX90614_WriteFilterConfig_part002 c fir iir =
           ((Finite 0, Some (errors_New msg)), c)"
  using assms by (auto simp add: MLX90614_WriteFilterConfig_part002_def)

text \<open>
  \<open>WriteFilterConfig\<close> of \<open>mlx90614_driver.go\<close>: for an accepted pair, once the config
  register has been read, the settling time returned is the formula of the data
  sheet at the supplied \<open>fir\<close> and \<open>iir\<close>, with \<open>dual\<close> read from bit 6 of the config,
  whether or not the EEPROM write succeeds.
\<close>

lemma WriteFilterConfig_settling_time:
  assumes "4 \<le> fir" "fir \<le> 7" "iir \<le> 7"
    and "MLX90614_ReadConfig cfg c = (Return (config, None), c1)"
  shows "\<exists>err. fst (MLX90614_WriteFilterConfig cfg c fir iir) =
           Return (Finite (9.719
              + the (iirSettingsMap iir) * (the (firSettingsMap fir) + 5.26)
              + the (iirSettingsMap iir) * (the (firSettingsMap fir) + 12.542)
              + (if bit config 6 then 1 else 0) * the (iirSettingsMap iir)
                  * (the (firSettingsMap fir) + 12.542)), err)"
proof -
  have nlt: "\<not> fir < 4" "\<not> (7 < fir \<or> 7 < iir)"
    using assms(1-3) by auto
  show ?thesis
    using assms(4) nlt
    by (simp add: MLX90614_WriteFilterConfig_def Let_def settling_expr_def dual_bit6
          map_index_fir [OF assms(1,2)] map_index_iir [OF assms(3)]
          split: prod.split option.split)
qed

text \<open>
  C4. The claim: out-of-range pairs are rejected before any bus activity, and an
  accepted pair returns the settling time of the formula "evaluated with the supplied
  fir and iir". \<open>mlx90614_driver.go\<close> does both (\<open>WriteFilterConfig_rejects\<close>,
  \<open>WriteFilterConfig_settling_time\<close>). The revision of part_002 computes the time with
  \<open>SettlingTimeFromConfig(config)\<close> from the config it has just read, before the new
  fields are put in, so it returns the settling time of the previous filter settings:
  with the prior config 0x9FB4 (FIR 7, IIR 4, single zone) and the supplied pair
  \<open>fir = 4\<close>, \<open>iir = 0\<close> it returns 95.233 ms, where the formula at the supplied pair,
  and \<open>mlx90614_driver.go\<close> on the same register content, give 291.419 ms.
\<close>

theorem C4_part002_settling_time_of_prior_config:
  "fst (MLX90614_WriteFilterConfig_part002 (testAdaptor [] 0 0x9FB4 (\<lambda>_. 0)) 4 0) =
     (Finite 95.233, None) \<and>
   fst (MLX90614_WriteFilterConfig default_config
          (testAdaptor [0x9F, 0xB4, 0x78] 3 0 (\<lambda>_. 0)) 4 0) = Return (Finite 291.419, None)"
  by code_simp

text \<open>
  C5. The claim: the config word written back has its FIR field equal to \<open>fir\<close>, its
  IIR field equal to \<open>iir\<close> and every other bit as read. \<open>mlx90614_driver.go\<close> only
  ORs the new fields into the word read (\<open>config |= fir16; config |= iir16\<close>) and
  never clears the old ones: with the prior config 0x9FB4 (FIR 7, IIR 4) and
  \<open>fir = 4\<close>, \<open>iir = 0\<close> the word it writes is 0x9FB4 again (the block
  \<open>[0x25, 0xB4, 0x9F, PEC]\<close>), with FIR field 7 and IIR field 4. The revision of
  part_002 clears each field first and writes 0x9CB0.
\<close>

theorem C5_WriteFilterConfig_keeps_prior_filter_bits:
  "fst (MLX90614_ReadConfig default_config (testAdaptor [0x9F, 0xB4, 0x78] 3 0 (\<lambda>_. 0))) =
     Return (0x9FB4, None) \<and>
   trace (snd (MLX90614_WriteFilterConfig default_config
                 (testAdaptor [0x9F, 0xB4, 0x78] 3 0 (\<lambda>_. 0)) 4 0)) =
     [EvWrite [0x25], EvRead 3, EvWriteBlockData 0x25 [0x25, 0x00, 0x00, 0x78], EvSleep 5,
      EvWriteBlockData 0x25 [0x25, 0xB4, 0x9F, 0x06], EvSleep 5] \<and>
   trace (snd (MLX90614_WriteFilterConfig_part002 (testAdaptor [] 0 0x9FB4 (\<lambda>_. 0)) 4 0)) =
     [EvReadWordData 0x25, EvWriteWordData 0x25 0, EvSleep 5,
      EvWriteWordData 0x25 0x9CB0, EvSleep 5]"
  by code_simp

text \<open>
  The word part_002 builds (lines 405-416), for every prior config and every accepted
  pair: FIR field \<open>fir\<close>, IIR field \<open>iir\<close>, all other bits those of the prior config.
\<close>

lemma le7_and: "(x :: byte) \<le> 7 \<Longrightarrow> x AND 7 = x"
  using byte_le7_cases [of x] by auto

lemma fir_field_masked:
  fixes config :: uint16 and fir iir :: byte
  shows "ucast (drop_bit 8 (((((config AND 0xF8FF) OR push_bit 8 (ucast (fir AND 7))) AND 0xFFF8)
           OR ucast (iir AND 7)) AND 0x0700)) = fir AND 7"
proof (rule bit_word_eqI)
  fix n :: nat
  assume "n < LENGTH(8)"
  then have "n < 8" by simp
  from lt8_cases [OF this]
  show "bit (ucast (drop_bit 8 (((((config AND 0xF8FF) OR push_bit 8 (ucast (fir AND 7)))
           AND 0xFFF8) OR ucast (iir AND 7)) AND 0x0700)) :: byte) n = bit (fir AND 7) n"
    by (auto simp add: bit_simps)
qed

lemma iir_field_masked:
  fixes config :: uint16 and fir iir :: byte
  shows "ucast (((((config AND 0xF8FF) OR push_bit 8 (ucast (fir AND 7))) AND 0xFFF8)
           OR ucast (iir AND 7)) AND 0x0007) = iir AND 7"
proof (rule bit_word_eqI)
  fix n :: nat
  assume "n < LENGTH(8)"
  then have "n < 8" by simp
  from lt8_cases [OF this]
  show "bit (ucast (((((config AND 0xF8FF) OR push_bit 8 (ucast (fir AND 7))) AND 0xFFF8)
           OR ucast (iir AND 7)) AND 0x0007) :: byte) n = bit (iir AND 7) n"
    by (auto simp add: bit_simps)
qed

lemma other_bits_masked:
  fixes config :: uint16 and fir iir :: byte
  shows "((((config AND 0xF8FF) OR push_bit 8 (ucast (fir AND 7))) AND 0xFFF8)
           OR ucast (iir AND 7)) AND 0xF8F8 = config AND 0xF8F8"
proof (rule bit_word_eqI)
  fix n :: nat
  assume "n < LENGTH(16)"
  then have "n < 16" by simp
  from lt16_cases [OF this]
  show "bit (((((config AND 0xF8FF) OR push_bit 8 (ucast (fir AND 7))) AND 0xFFF8)
           OR ucast (iir AND 7)) AND 0xF8F8) n = bit (config AND 0xF8F8) n"
    by (auto simp add: bit_simps)
qed

lemma part002_config_word:
  fixes config :: uint16 and fir iir :: byte
  assumes "fir \<le> 7" "iir \<le> 7"
  shows "ucast (drop_bit 8 (((((config AND 0xF8FF) OR push_bit 8 (ucast fir)) AND 0xFFF8)
           OR ucast iir) AND 0x0700)) = fir \<and>
         ucast (((((config AND 0xF8FF) OR push_bit 8 (ucast fir)) AND 0xFFF8)
           OR ucast iir) AND 0x0007) = iir \<and>
         ((((config AND 0xF8FF) OR push_bit 8 (ucast fir)) AND 0xFFF8)
           OR ucast iir) AND 0xF8F8 = config AND 0xF8F8"
  using fir_field_masked [of config fir iir] iir_field_masked [of config fir iir]
    other_bits_masked [of config fir iir]
  by (simp add: le7_and [OF assms(1)] le7_and [OF assms(2)])

text \<open>
  \<open>WriteFilterConfig\<close> of part_002 on the bus: when the config is read at the first
  attempt and the erase write is accepted, the write phase sends a word with these
  three properties.
\<close>

lemma readword_retry_first:
  assumes "i2cReadWordDataImpl c (trace c) address = (v, None)"
  shows "readword_retry (Suc j) c address val16 err =
           ((v, None), log_event (EvReadWordData address) c)"
  using assms by (simp add: conn_ReadWordData_def)

lemma WriteFilterConfig_part002_word:
  assumes "4 \<le> fir" "fir \<le> 7" "iir \<le> 7"
    and "i2cReadWordDataImpl c (trace c) 0x25 = (config, None)"
    and "i2cWriteWordDataImpl c (trace c @ [EvReadWordData 0x25]) 0x25 0 = None"
  shows "\<exists>w rest.
           trace (snd (MLX90614_WriteFilterConfig_part002 c fir iir)) =
             trace c @ [EvReadWordData 0x25, EvWriteWordData 0x25 0, EvSleep 5,
                        EvWriteWordData 0x25 w] @ rest \<and>
           ucast (drop_bit 8 (w AND 0x0700)) = fir \<and>
           ucast (w AND 0x0007) = iir \<and>
           w AND 0xF8F8 = config AND 0xF8F8"
proof -
  let ?w = "((((config AND 0xF8FF) OR push_bit 8 (ucast fir)) AND 0xFFF8) OR ucast iir)"
  have nlt: "\<not> fir < 4" "\<not> (7 < fir \<or> 7 < iir)"
    using assms(1-3) by auto
  have rr: "readword_retry 10 c 0x25 0 None = ((config, None), log_event (EvReadWordData 0x25) c)"
    using readword_retry_first [OF assms(4), of 9 0 None] by simp
  have rd: "MLX90614_ReadConfig_part002 c = ((config, None), log_event (EvReadWordData 0x25) c)"
    by (simp add: MLX90614_ReadConfig_part002_def MLX90614_read_part002_def
          mlx90614RegisterConfig_def rr)
  have tr: "trace (snd (MLX90614_WriteFilterConfig_part002 c fir iir)) =
             trace c @ [EvReadWordData 0x25, EvWriteWordData 0x25 0, EvSleep 5,
                        EvWriteWordData 0x25 ?w] @
               (case i2cWriteWordDataImpl c
                       (trace c @ [EvReadWordData 0x25, EvWriteWordData 0x25 0, EvSleep 5]) 0x25 ?w of
                  None \<Rightarrow> [EvSleep 5] | Some e \<Rightarrow> [])"
    using nlt assms(5)
    by (simp add: MLX90614_WriteFilterConfig_part002_def rd Let_def
          MLX90614_writeEEPROM_part002_def MLX90614_write_part002_def mlx90614RegisterConfig_def
          mlx90614RegisterKE_def conn_WriteWordData_def time_Sleep_def log_event_def
          split: option.split)
  show ?thesis
    using tr part002_config_word [OF assms(2,3), of config] by blast
qed

text \<open>The word of \<open>mlx90614_driver.go\<close> keeps the bits outside the two fields.\<close>

lemma named_config_word_other_bits:
  fixes config :: uint16 and fir iir :: byte
  assumes "fir \<le> 7" "iir \<le> 7"
  shows "((config OR push_bit 8 (ucast fir)) OR ucast iir) AND 0xF8F8 = config AND 0xF8F8"
proof -
  have "((config OR push_bit 8 (ucast (fir AND 7))) OR ucast (iir AND 7)) AND 0xF8F8
          = config AND 0xF8F8"
  proof (rule bit_word_eqI)
    fix n :: nat
    assume "n < LENGTH(16)"
    then have "n < 16" by simp
    from lt16_cases [OF this]
    show "bit (((config OR push_bit 8 (ucast (fir AND 7))) OR ucast (iir AND 7)) AND 0xF8F8) n
            = bit (config AND 0xF8F8) n"
      by (auto simp add: bit_simps)
  qed
  then show ?thesis
    by (simp add: le7_and [OF assms(1)] le7_and [OF assms(2)])
qed

section \<open>MLX90614: \<open>ReadAddress\<close>\<close>





section \<open>TMP007: the temperature registers\<close>



text \<open>Every 16-bit raw value is the word of the two bytes the bus delivers for it.\<close>

lemma int16_of_bytes_surj:
  "int16_of_bytes (ucast (drop_bit 8 raw)) (ucast raw) = (raw :: uint16)"
  unfolding int16_of_bytes_def
proof (rule bit_word_eqI)
  fix n :: nat
  assume "n < LENGTH(16)"
  then have "n < 16" by simp
  from lt16_cases [OF this]
  show "bit (push_bit 8 (ucast (ucast (drop_bit 8 raw) :: byte) :: uint16)
               OR ucast (ucast raw :: byte)) n = bit raw n"
    by (auto simp add: bit_simps)
qed



text \<open>The arithmetic shift by two is the floor of a quarter of the signed value.\<close>

lemma sint_shift2: "sint (signed_drop_bit 2 (raw :: uint16)) = sint raw div 4"
  by (simp add: sint_signed_drop_bit_eq drop_bit_eq_div)

text \<open>
  The revision of part_001 declares \<open>ReadDieTempC\<close> and \<open>ReadObjTempC\<close> with the single
  result \<open>float64\<close>; it has no error to return and does not look at bit 0. For the
  raw value 0x0C81 both return 25.0.
\<close>

lemma part001_temperature_ignores_nDV:
  "bit (int16_of_bytes 0x0C 0x81) 0 \<and>
   fst (TMP007_ReadDieTempC_part001 (testAdaptor [0x0C, 0x81] 2 0 (\<lambda>_. 0))) = Return (Finite 25) \<and>
   fst (TMP007_ReadObjTempC_part001 (testAdaptor [0x0C, 0x81] 2 0 (\<lambda>_. 0))) = Return (Finite 25)"
  by code_simp

section \<open>TMP007: the length of the buffer \<open>read\<close> returns\<close>

text \<open>
  \<open>read\<close> of \<open>tmp007.go\<close>: a \<open>nil\<close> error comes with a buffer of exactly \<open>n\<close> bytes,
  whatever the transport reports, and the three readers never index out of range.
\<close>

lemma TMP007_read_length:
  assumes "TMP007_read c address n = ((buf, None), c1)"
  shows "length buf = n"
proof (cases "snd (i2cWriteImpl c (trace c) [address])")
  case (Some e)
  then show ?thesis
    using assms by (simp add: TMP007_read_def conn_Write_def split: prod.splits)
next
  case None
  have "length (fst (fst (read_retry 50 n (log_event (EvWrite [address]) c)
          (replicate n 0) 0 None))) = n"
    by (simp add: length_read_retry)
  then show ?thesis
    using assms None by (auto simp add: TMP007_read_def conn_Write_def split: prod.splits)
qed

lemma TMP007_never_panics:
  "fst (TMP007_ReadDieTempC c) \<noteq> Panic"
  "fst (TMP007_ReadObjTempC c) \<noteq> Panic"
  "fst (TMP007_ReadSensorVoltage c) \<noteq> Panic"
  using TMP007_read_length
  by (auto simp add: TMP007_ReadDieTempC_def TMP007_ReadObjTempC_def TMP007_ReadSensorVoltage_def
        Let_def split: prod.splits option.splits if_splits)

text \<open>
  On a transport that reports one byte and no error at every \<open>Read\<close>, \<open>read\<close> of
  \<open>tmp007.go\<close> gives up after its fifty attempts and returns the two-byte buffer
  with a \<open>nil\<close> error.
\<close>

lemma TMP007_short_read:
  "fst (TMP007_read (testAdaptor [0x0C] 1 0 (\<lambda>_. 0)) 0x01 2) = ([0x0C, 0x00], None) \<and>
   fst (TMP007_ReadDieTempC (testAdaptor [0x0C] 1 0 (\<lambda>_. 0))) = Return (Finite 24, None)"
  by code_simp

text \<open>
  C10. The claim: when \<open>read(address, n)\<close> returns a \<open>nil\<close> error its buffer has
  length \<open>n\<close>, so the three readers never index a nil or short slice, also when
  \<open>connection.Read\<close> reports fewer than \<open>n\<close> bytes and a \<open>nil\<close> error. \<open>tmp007.go\<close>
  satisfies it (\<open>TMP007_read_length\<close>, \<open>TMP007_never_panics\<close>). \<open>read\<close> of part_001
  returns \<open>nil, err\<close> when \<open>bytesRead != n || err != nil\<close>; on a short read without an
  error that is a \<open>nil\<close> buffer with a \<open>nil\<close> error, and \<open>ReadDieTempC\<close>,
  \<open>ReadObjTempC\<close> and \<open>ReadSensorVoltage\<close>, which drop the error, index \<open>b[0]\<close> of it
  and panic.
\<close>

theorem C10_part001_short_read_panics:
  "fst (TMP007_read_part001 (testAdaptor [0x0C] 1 0 (\<lambda>_. 0)) 0x01 2) = ([], None) \<and>
   fst (TMP007_ReadDieTempC_part001 (testAdaptor [0x0C] 1 0 (\<lambda>_. 0))) = Panic \<and>
   fst (TMP007_ReadObjTempC_part001 (testAdaptor [0x0C] 1 0 (\<lambda>_. 0))) = Panic \<and>
   fst (TMP007_ReadSensorVoltage_part001 (testAdaptor [0x0C] 1 0 (\<lambda>_. 0))) = Panic"
  by code_simp

text \<open>The same evaluation, read off the theorem for \<open>read\<close> alone.\<close>

theorem C10_part001_short_read_panics_witness:
  "fst (TMP007_read_part001 (testAdaptor [0x0C] 1 0 (\<lambda>_. 0)) 0x01 2) = ([], None)"
  using C10_part001_short_read_panics by simp

section \<open>CaliPile: the ambient temperature\<close>



text \<open>A call of \<open>CalculateTPAmbientC\<close> that returned would have to follow one that returned.\<close>

lemma CalculateTPAmbientC_never_Some:
  "CalculateTPAmbientC ee c = Some r \<Longrightarrow> False"
  by (rule CalculateTPAmbientC.raw_induct [where P = "\<lambda>_ _ _. False"])
     (auto split: Option.bind_splits)

text \<open>
  C9. The claim: \<open>CalculateTPAmbientC\<close> terminates on every call and returns the
  value of \<open>CalculateTPAmbient\<close> minus 273.15. The function calls itself, not the
  Kelvin variant, before anything else: for every calibration state and every
  transport the call does not return.
\<close>

theorem C9_CalculateTPAmbientC_does_not_return:
  "CalculateTPAmbientC ee c = None"
  using CalculateTPAmbientC_never_Some [of ee c]
  by (cases "CalculateTPAmbientC ee c") auto

end
